theory Spec2Isabelle
  imports Main "HOL-Library.Word"
begin

section \<open>Values, exceptions and the world of one request\<close>

text \<open>
  The service is the single module \<^verbatim>\<open>FastAPI_EDX.py\<close>: the class \<^verbatim>\<open>Data_File\<close>
  (\<^verbatim>\<open>file_validation\<close>, \<^verbatim>\<open>df\<close>) and three POST handlers. A request body is a
  byte string; a path is a string.
\<close>

type_synonym bytes = "8 word list"

text \<open>
  The values the handlers build: JSON-like Python objects. A float literal of the source
  is kept exact as mantissa and number of decimals (\<open>PFloat m d\<close> is \<open>m / 10 ^ d\<close>);
  \<open>PObj\<close> is an object the model does not look into (a module, a class, a function).
\<close>

datatype pyval =
    PNone
  | PBool bool
  | PInt int
  | PFloat int nat
  | PStr string
  | PList "pyval list"
  | PDict "(string \<times> pyval) list"
  | PObj string

text \<open>
  The exceptions that are raised, caught and formatted inside the module. The last two
  stand for what the library calls raise: \<open>OtherException c t\<close> is an instance of a class
  \<open>c\<close> deriving from \<^verbatim>\<open>Exception\<close> (OSError, a pandas parser error, ...) whose
  \<^verbatim>\<open>str\<close> is \<open>t\<close>; \<open>BaseException c t\<close> one of a class outside \<^verbatim>\<open>Exception\<close>
  (KeyboardInterrupt, SystemExit, CancelledError).
\<close>

datatype pyexc =
    NameError string
  | UnboundLocalError string
  | ValueError string
  | Exception string
  | FileNotFoundError string
  | FileExistsError string
  | OtherException string string
  | BaseException string string

text \<open>\<^verbatim>\<open>except Exception\<close> catches every class but those outside \<^verbatim>\<open>Exception\<close>.\<close>

fun is_Exception :: "pyexc \<Rightarrow> bool" where
  "is_Exception (BaseException c t) = False"
| "is_Exception e = True"

text \<open>\<^verbatim>\<open>str(e)\<close>, as CPython 3.11 formats the built-in ones; \<open>quoted\<close> puts a name
  between single quotes.\<close>

definition quoted :: "string \<Rightarrow> string" where
  "quoted s = [CHR 0x27] @ s @ [CHR 0x27]"

fun str_exc :: "pyexc \<Rightarrow> string" where
  "str_exc (NameError n) = ''name '' @ quoted n @ '' is not defined''"
| "str_exc (UnboundLocalError n) =
     ''cannot access local variable '' @ quoted n @ '' where it is not associated with a value''"
| "str_exc (ValueError m) = m"
| "str_exc (Exception m) = m"
| "str_exc (FileNotFoundError p) = ''[Errno 2] No such file or directory: '' @ quoted p"
| "str_exc (FileExistsError p) = ''[Errno 17] File exists: '' @ quoted p"
| "str_exc (OtherException c t) = t"
| "str_exc (BaseException c t) = t"

text \<open>
  What leaves a handler as a failure: \<^verbatim>\<open>fastapi.HTTPException(status_code, detail)\<close>,
  or an exception nothing caught.
\<close>

datatype failure =
    HTTPException nat string
  | Uncaught pyexc

text \<open>
  The transport status the framework answers with: 200 for a returned value, the status
  code of an \<^verbatim>\<open>HTTPException\<close>, 500 for any other exception.
\<close>

fun transport_status :: "failure + 'a \<Rightarrow> nat" where
  "transport_status (Inr v) = 200"
| "transport_status (Inl (HTTPException code detail)) = code"
| "transport_status (Inl (Uncaught e)) = 500"

text \<open>
  The world a request runs in: the filesystem, as a map from paths to contents, and the
  messages appended to the day's log file.
\<close>

record world =
  files :: "string \<rightharpoonup> bytes"
  log :: "string list"

definition logging_error :: "string \<Rightarrow> world \<Rightarrow> world" where
  "logging_error msg w = w\<lparr>log := log w @ [msg]\<rparr>"

text \<open>
  What the environment decides for one request: the temporary directory, the random
  characters \<^verbatim>\<open>tempfile\<close> draws for the name, and whether creating, writing or
  closing the file fails (and with which exception).
\<close>

record io_env =
  tmp_dir :: string
  tmp_rand :: string
  create_error :: "pyexc option"
  write_error :: "pyexc option"
  close_error :: "pyexc option"

record request =
  body :: bytes

section \<open>Strings\<close>

text \<open>Python's \<^verbatim>\<open>s.startswith(p)\<close>, \<^verbatim>\<open>sub in s\<close> and \<^verbatim>\<open>s.endswith(suf)\<close>.\<close>

fun startswith :: "string \<Rightarrow> string \<Rightarrow> bool" where
  "startswith s [] = True"
| "startswith [] (p # ps) = False"
| "startswith (c # cs) (p # ps) = (c = p \<and> startswith cs ps)"

fun str_contains :: "string \<Rightarrow> string \<Rightarrow> bool" where
  "str_contains sub [] = (sub = [])"
| "str_contains sub (c # cs) = (startswith (c # cs) sub \<or> str_contains sub cs)"

definition endswith :: "string \<Rightarrow> string \<Rightarrow> bool" where
  "endswith s suf = startswith (rev s) (rev suf)"

section \<open>The class \<^verbatim>\<open>Data_File\<close>\<close>

record Data_File =
  file_path :: string

text \<open>
  \<^verbatim>\<open>file_validation\<close> reads \<^verbatim>\<open>self.file_path\<close> and nothing else: the object and
  the world are handed back as they came.
\<close>

definition file_validation :: "Data_File \<Rightarrow> world \<Rightarrow> bool \<times> Data_File \<times> world" where
  "file_validation self w =
     (if str_contains ''invalid'' (file_path self) then (False, self, w)
      else (True, self, w))"

text \<open>
  \<^verbatim>\<open>df\<close>: the \<^verbatim>\<open>try\<close> body first. \<^verbatim>\<open>pd.read_csv\<close> belongs to pandas, so it is a
  parameter: given the path, the delimiter and the world, it returns a table or raises.
\<close>

definition df_try ::
  "(string \<Rightarrow> char \<Rightarrow> world \<Rightarrow> (pyexc + 't) \<times> world) \<Rightarrow> Data_File \<Rightarrow> world \<Rightarrow> (pyexc + 't) \<times> world"
where
  "df_try read_csv self w =
     (if endswith (file_path self) ''.txt'' then read_csv (file_path self) (CHR 0x09) w
      else (Inl (ValueError ''File is not a .txt file''), w))"

definition df ::
  "(string \<Rightarrow> char \<Rightarrow> world \<Rightarrow> (pyexc + 't) \<times> world) \<Rightarrow> Data_File \<Rightarrow> world \<Rightarrow> (failure + 't) \<times> world"
where
  "df read_csv self w =
     (case df_try read_csv self w of
        (Inr table, w1) \<Rightarrow> (Inr table, w1)
      | (Inl e, w1) \<Rightarrow>
          if is_Exception e
          then (Inl (HTTPException 500 (''Error reading file: '' @ str_exc e)),
                logging_error (''Error reading file '' @ file_path self @ '': '' @ str_exc e) w1)
          else (Inl (Uncaught e), w1))"

text \<open>
  The read step of \<^verbatim>\<open>pd.read_csv\<close>: it opens the path, reads the bytes stored there
  and hands them to the parser, which is pandas' own and stays a parameter.
\<close>

definition pd_read_csv ::
  "(char \<Rightarrow> bytes \<Rightarrow> pyexc + 't) \<Rightarrow> string \<Rightarrow> char \<Rightarrow> world \<Rightarrow> (pyexc + 't) \<times> world"
where
  "pd_read_csv parse p delimiter w =
     (case files w p of
        None \<Rightarrow> (Inl (FileNotFoundError p), w)
      | Some stored \<Rightarrow> (parse delimiter stored, w))"

section \<open>Names of the module\<close>

text \<open>
  \<^verbatim>\<open>template_data\<close>, the module-level sample composition.
\<close>

definition template_data :: pyval where
  "template_data =
     PDict [(''Compositions'', PList [
       PDict [
         (''CompositionElements'', PList [
            PDict [(''CompoundIndex'', PInt 0), (''ElementName'', PStr ''V''),
                   (''ValueAbsolute'', PNone), (''ValuePercent'', PFloat 31299999237906547 15)],
            PDict [(''CompoundIndex'', PInt 0), (''ElementName'', PStr ''Mn''),
                   (''ValueAbsolute'', PNone), (''ValuePercent'', PFloat 2700000047683716 15)],
            PDict [(''CompoundIndex'', PInt 0), (''ElementName'', PStr ''Co''),
                   (''ValueAbsolute'', PNone), (''ValuePercent'', PFloat 22600000381469727 15)],
            PDict [(''CompoundIndex'', PInt 0), (''ElementName'', PStr ''Ni''),
                   (''ValueAbsolute'', PNone), (''ValuePercent'', PInt 6)],
            PDict [(''CompoundIndex'', PInt 0), (''ElementName'', PStr ''Ho''),
                   (''ValueAbsolute'', PNone), (''ValuePercent'', PFloat 37400001525878906 15)]]),
         (''DeletePreviousProperties'', PBool True),
         (''Properties'', PList [
            PDict [(''PropertyID'', PInt 0), (''Type'', PInt 2),
                   (''Name'', PStr ''Measurement Area''), (''Value'', PInt 1),
                   (''ValueEpsilon'', PNone), (''SortCode'', PInt 10),
                   (''Row'', PNone), (''Comment'', PNone)]])]])]"

text \<open>
  The names the module binds at its top level (imports, assignments, the class and the
  three handlers), with the value where it is data.
\<close>

definition module_globals :: "(string \<times> pyval) list" where
  "module_globals =
     [(''FastAPI'', PObj ''class''), (''Request'', PObj ''class''),
      (''HTTPException'', PObj ''class''), (''List'', PObj ''typing''),
      (''Optional'', PObj ''typing''), (''os'', PObj ''module''),
      (''tempfile'', PObj ''module''), (''dt'', PObj ''module''),
      (''logging'', PObj ''module''), (''uvicorn'', PObj ''module''),
      (''pd'', PObj ''module''), (''log_directory'', PStr ''./Loggs''),
      (''today'', PObj ''datetime''), (''file_name'', PObj ''str''),
      (''app'', PObj ''FastAPI''), (''Data_File'', PObj ''class''),
      (''template_data'', template_data),
      (''process_txt_data'', PObj ''function''),
      (''validation_of_incoming_txt_file'', PObj ''function''),
      (''process_txt_data_table'', PObj ''function'')]"

text \<open>The names of Python's \<^verbatim>\<open>builtins\<close> module (functions, constants, exception classes).\<close>

definition builtin_names :: "string list" where
  "builtin_names =
     [''abs'', ''aiter'', ''all'', ''anext'', ''any'', ''ascii'', ''bin'', ''bool'',
      ''breakpoint'', ''bytearray'', ''bytes'', ''callable'', ''chr'', ''classmethod'',
      ''compile'', ''complex'', ''copyright'', ''credits'', ''delattr'', ''dict'', ''dir'',
      ''divmod'', ''enumerate'', ''eval'', ''exec'', ''exit'', ''filter'', ''float'',
      ''format'', ''frozenset'', ''getattr'', ''globals'', ''hasattr'', ''hash'', ''help'',
      ''hex'', ''id'', ''input'', ''int'', ''isinstance'', ''issubclass'', ''iter'', ''len'',
      ''license'', ''list'', ''locals'', ''map'', ''max'', ''memoryview'', ''min'', ''next'',
      ''object'', ''oct'', ''open'', ''ord'', ''pow'', ''print'', ''property'', ''quit'',
      ''range'', ''repr'', ''reversed'', ''round'', ''set'', ''setattr'', ''slice'',
      ''sorted'', ''staticmethod'', ''str'', ''sum'', ''super'', ''tuple'', ''type'',
      ''vars'', ''zip'', ''__import__'', ''__build_class__'', ''__debug__'', ''__doc__'',
      ''__loader__'', ''__name__'', ''__package__'', ''__spec__'',
      ''None'', ''True'', ''False'', ''Ellipsis'', ''NotImplemented'',
      ''BaseException'', ''BaseExceptionGroup'', ''Exception'', ''ExceptionGroup'',
      ''GeneratorExit'', ''KeyboardInterrupt'', ''SystemExit'',
      ''ArithmeticError'', ''AssertionError'', ''AttributeError'', ''BlockingIOError'',
      ''BrokenPipeError'', ''BufferError'', ''ChildProcessError'', ''ConnectionAbortedError'',
      ''ConnectionError'', ''ConnectionRefusedError'', ''ConnectionResetError'', ''EOFError'',
      ''EnvironmentError'', ''FileExistsError'', ''FileNotFoundError'',
      ''FloatingPointError'', ''IOError'', ''ImportError'', ''IndentationError'',
      ''IndexError'', ''InterruptedError'', ''IsADirectoryError'', ''KeyError'',
      ''LookupError'', ''MemoryError'', ''ModuleNotFoundError'', ''NameError'',
      ''NotADirectoryError'', ''NotImplementedError'', ''OSError'', ''OverflowError'',
      ''PermissionError'', ''ProcessLookupError'', ''RecursionError'', ''ReferenceError'',
      ''RuntimeError'', ''StopAsyncIteration'', ''StopIteration'', ''SyntaxError'',
      ''SystemError'', ''TabError'', ''TimeoutError'', ''TypeError'', ''UnboundLocalError'',
      ''UnicodeDecodeError'', ''UnicodeEncodeError'', ''UnicodeError'',
      ''UnicodeTranslateError'', ''ValueError'', ''ZeroDivisionError'',
      ''BytesWarning'', ''DeprecationWarning'', ''EncodingWarning'', ''FutureWarning'',
      ''ImportWarning'', ''PendingDeprecationWarning'', ''ResourceWarning'',
      ''RuntimeWarning'', ''SyntaxWarning'', ''UnicodeWarning'', ''UserWarning'', ''Warning'']"

text \<open>
  Loading a name that no function assigns: the module's globals first, then the
  builtins; a name found in neither raises \<^verbatim>\<open>NameError\<close>.
\<close>

definition load_global :: "string \<Rightarrow> pyexc + pyval" where
  "load_global n =
     (case map_of module_globals n of
        Some v \<Rightarrow> Inr v
      | None \<Rightarrow> if n \<in> set builtin_names then Inr (PObj n) else Inl (NameError n))"

text \<open>
  A dict display \<^verbatim>\<open>{k1: e1, k2: e2, ...}\<close> evaluates its items from left to right; the
  first item that raises ends the evaluation.
\<close>

fun eval_items :: "(string \<times> (pyexc + pyval)) list \<Rightarrow> pyexc + (string \<times> pyval) list" where
  "eval_items [] = Inr []"
| "eval_items ((k, Inl e) # rest) = Inl e"
| "eval_items ((k, Inr v) # rest) =
     (case eval_items rest of Inl e \<Rightarrow> Inl e | Inr kvs \<Rightarrow> Inr ((k, v) # kvs))"

definition dict_display :: "(string \<times> (pyexc + pyval)) list \<Rightarrow> pyexc + pyval" where
  "dict_display items = (case eval_items items of Inl e \<Rightarrow> Inl e | Inr kvs \<Rightarrow> Inr (PDict kvs))"

section \<open>The temporary file\<close>

record temp_file =
  name :: string

text \<open>\<^verbatim>\<open>os.path.join\<close> of a directory and a relative file name.\<close>

definition path_join :: "string \<Rightarrow> string \<Rightarrow> string" where
  "path_join d f = (if d = [] then f else if last d = CHR ''/'' then d @ f else d @ ''/'' @ f)"

text \<open>
  \<^verbatim>\<open>tempfile.NamedTemporaryFile(delete=False, suffix=...)\<close>: the file
  \<^verbatim>\<open>tmp<random><suffix>\<close> is created empty in the temporary directory, exclusively.
\<close>

definition NamedTemporaryFile :: "io_env \<Rightarrow> string \<Rightarrow> world \<Rightarrow> (pyexc + temp_file) \<times> world" where
  "NamedTemporaryFile env suffix w =
     (case create_error env of
        Some e \<Rightarrow> (Inl e, w)
      | None \<Rightarrow>
          (let p = path_join (tmp_dir env) (''tmp'' @ tmp_rand env @ suffix)
           in case files w p of
                Some old \<Rightarrow> (Inl (FileExistsError p), w)
              | None \<Rightarrow> (Inr \<lparr>name = p\<rparr>, w\<lparr>files := (files w)(p \<mapsto> [])\<rparr>)))"

text \<open>
  \<^verbatim>\<open>temp_file.write(data)\<close> on the binary-mode file appends the bytes as they are, and
  returns their number; \<^verbatim>\<open>temp_file.close()\<close> changes no content.
\<close>

definition tf_write :: "io_env \<Rightarrow> temp_file \<Rightarrow> bytes \<Rightarrow> world \<Rightarrow> (pyexc + nat) \<times> world" where
  "tf_write env f data w =
     (case write_error env of
        Some e \<Rightarrow> (Inl e, w)
      | None \<Rightarrow>
          (case files w (name f) of
             None \<Rightarrow> (Inr (length data), w)
           | Some old \<Rightarrow> (Inr (length data), w\<lparr>files := (files w)(name f \<mapsto> old @ data)\<rparr>)))"

definition tf_close :: "io_env \<Rightarrow> temp_file \<Rightarrow> world \<Rightarrow> (pyexc + unit) \<times> world" where
  "tf_close env f w =
     (case close_error env of
        Some e \<Rightarrow> (Inl e, w)
      | None \<Rightarrow> (Inr (), w))"

text \<open>\<^verbatim>\<open>os.unlink(p)\<close> removes the path, and raises when nothing is there.\<close>

definition os_unlink :: "string \<Rightarrow> world \<Rightarrow> (pyexc + unit) \<times> world" where
  "os_unlink p w =
     (case files w p of
        None \<Rightarrow> (Inl (FileNotFoundError p), w)
      | Some stored \<Rightarrow> (Inr (), w\<lparr>files := (files w)(p := None)\<rparr>))"

section \<open>The handlers\<close>

text \<open>\<^verbatim>\<open>process_txt_data\<close> takes no parameter and returns the global \<^verbatim>\<open>template_data\<close>.\<close>

definition process_txt_data :: "pyexc + pyval" where
  "process_txt_data = load_global ''template_data''"

text \<open>The route hands the handler the parameters its signature declares: none.\<close>

definition post_databasevaluesbody :: "request \<Rightarrow> pyexc + pyval" where
  "post_databasevaluesbody request = process_txt_data"

definition process_txt_data_table :: "request \<Rightarrow> pyexc + pyval" where
  "process_txt_data_table request =
     (let table_data =
        PDict [(''DataTable'', PList [
          PDict [(''Spectrum'', PStr ''Spektrum 1 {1}''),
                 (''In stats.'', PStr ''Yes''),
                 (''X (mm)'', PFloat (- 446) 1),
                 (''Y (mm)'', PFloat (- 403) 1),
                 (''C'', PFloat 8036562 5),
                 (''O'', PFloat 177799 4),
                 (''Si'', PFloat 331076 6),
                 (''V'', PFloat (- 3328189) 7),
                 (''Mn'', PFloat 9434319 8),
                 (''Co'', PFloat 112593 5),
                 (''Ni'', PFloat 1070188 6),
                 (''Ho'', PFloat (- 4342265) 7)]])]
      in Inr (PDict [(''data'', table_data)]))"

text \<open>
  The validation handler. Lines 134 to 137: write, close, and only then bind
  \<^verbatim>\<open>file_path\<close>.
\<close>

definition write_and_close :: "io_env \<Rightarrow> temp_file \<Rightarrow> bytes \<Rightarrow> world \<Rightarrow> (pyexc + string) \<times> world" where
  "write_and_close env f byte_data w =
     (case tf_write env f byte_data w of
        (Inl e, w1) \<Rightarrow> (Inl e, w1)
      | (Inr n, w1) \<Rightarrow>
          (case tf_close env f w1 of
             (Inl e, w2) \<Rightarrow> (Inl e, w2)
           | (Inr u, w2) \<Rightarrow> (Inr (name f), w2)))"

text \<open>The two dict displays of the handler; \<^verbatim>\<open>null\<close> is a name to load.\<close>

definition pass_envelope :: "pyexc + pyval" where
  "pass_envelope =
     dict_display [(''Code'', Inr (PInt 0)),
                   (''Message'', load_global ''null''),
                   (''Warning'', load_global ''null'')]"

definition fail_envelope :: "pyexc + pyval" where
  "fail_envelope =
     dict_display [(''Code'', Inr (PInt 500)),
                   (''Message'', Inr (PStr ''System.Exception column 0: MA (unknown column name)'')),
                   (''Warning'', load_global ''null'')]"

text \<open>
  The \<^verbatim>\<open>try\<close> body: its outcome, the local \<^verbatim>\<open>file_path\<close> (\<open>None\<close> while unbound) and
  the world.
\<close>

definition try_body ::
  "io_env \<Rightarrow> temp_file \<Rightarrow> bytes \<Rightarrow> world \<Rightarrow> (pyexc + pyval) \<times> string option \<times> world"
where
  "try_body env f byte_data w =
     (case write_and_close env f byte_data w of
        (Inl e, w1) \<Rightarrow> (Inl e, None, w1)
      | (Inr path, w1) \<Rightarrow>
          (case file_validation \<lparr>file_path = path\<rparr> w1 of
             (validation_status, new_file, w2) \<Rightarrow>
               if validation_status then (pass_envelope, Some path, w2)
               else (Inl (Exception ''System.Exception column 0: MA (unknown column name)''),
                     Some path, w2)))"

definition except_clause :: "pyexc \<Rightarrow> world \<Rightarrow> (pyexc + pyval) \<times> world" where
  "except_clause e w = (fail_envelope, logging_error (''Validation failed: '' @ str_exc e) w)"

definition finally_clause :: "string option \<Rightarrow> world \<Rightarrow> (pyexc + unit) \<times> world" where
  "finally_clause local_file_path w =
     (case local_file_path of
        None \<Rightarrow> (Inl (UnboundLocalError ''file_path''), w)
      | Some p \<Rightarrow> os_unlink p w)"

text \<open>
  \<^verbatim>\<open>try ... except Exception ... finally\<close>: an exception of the body that the clause
  catches is replaced by the clause's outcome; the \<^verbatim>\<open>finally\<close> clause runs in every
  case, and an exception it raises replaces the pending outcome.
\<close>

definition try_except_finally ::
  "(pyexc + pyval) \<times> string option \<times> world \<Rightarrow> (pyexc + pyval) \<times> world"
where
  "try_except_finally t =
     (case t of (r, local_file_path, w) \<Rightarrow>
        (case (case r of
                 Inr v \<Rightarrow> (Inr v, w)
               | Inl e \<Rightarrow> if is_Exception e then except_clause e w else (Inl e, w)) of
           (r1, w1) \<Rightarrow>
             (case finally_clause local_file_path w1 of
                (Inl e, w2) \<Rightarrow> (Inl e, w2)
              | (Inr u, w2) \<Rightarrow> (r1, w2))))"

definition validation_of_incoming_txt_file ::
  "io_env \<Rightarrow> request \<Rightarrow> world \<Rightarrow> (pyexc + pyval) \<times> world"
where
  "validation_of_incoming_txt_file env request w =
     (let byte_data = body request
      in case NamedTemporaryFile env ''.txt'' w of
           (Inl e, w1) \<Rightarrow> (Inl e, w1)
         | (Inr f, w1) \<Rightarrow> try_except_finally (try_body env f byte_data w1))"

text \<open>What the framework makes of the handler's outcome.\<close>

definition surfaced :: "pyexc + 'a \<Rightarrow> failure + 'a" where
  "surfaced r = (case r of Inl e \<Rightarrow> Inl (Uncaught e) | Inr v \<Rightarrow> Inr v)"

section \<open>Strings: what the tests compute\<close>

lemma startswith_iff: "startswith s p \<longleftrightarrow> (\<exists>suf. s = p @ suf)"
  by (induction s p rule: startswith.induct) auto

lemma str_contains_iff: "str_contains sub s \<longleftrightarrow> (\<exists>pre suf. s = pre @ sub @ suf)"
proof (induction s)
  case Nil
  then show ?case by auto
next
  case (Cons c cs)
  show ?case
  proof
    assume "str_contains sub (c # cs)"
    then consider "startswith (c # cs) sub" | "str_contains sub cs" by auto
    then show "\<exists>pre suf. c # cs = pre @ sub @ suf"
    proof cases
      case 1
      then obtain suf where "c # cs = sub @ suf" by (auto simp: startswith_iff)
      then have "c # cs = [] @ sub @ suf" by simp
      then show ?thesis by blast
    next
      case 2
      then obtain pre suf where "cs = pre @ sub @ suf" using Cons.IH by auto
      then have "c # cs = (c # pre) @ sub @ suf" by simp
      then show ?thesis by blast
    qed
  next
    assume "\<exists>pre suf. c # cs = pre @ sub @ suf"
    then obtain pre suf where eq: "c # cs = pre @ sub @ suf" by auto
    show "str_contains sub (c # cs)"
    proof (cases pre)
      case Nil
      with eq have "startswith (c # cs) sub" by (auto simp: startswith_iff)
      then show ?thesis by simp
    next
      case (Cons a pre')
      with eq have "cs = pre' @ sub @ suf" by simp
      then have "str_contains sub cs" using Cons.IH by auto
      then show ?thesis by simp
    qed
  qed
qed

lemma endswith_iff: "endswith s suf \<longleftrightarrow> (\<exists>pre. s = pre @ suf)"
proof -
  have "endswith s suf \<longleftrightarrow> (\<exists>t. rev s = rev suf @ t)"
    by (simp add: endswith_def startswith_iff)
  also have "\<dots> \<longleftrightarrow> (\<exists>pre. s = pre @ suf)"
  proof
    assume "\<exists>t. rev s = rev suf @ t"
    then obtain t where "rev s = rev suf @ t" by auto
    then have "rev (rev s) = rev (rev suf @ t)" by simp
    then have "s = rev t @ suf" by simp
    then show "\<exists>pre. s = pre @ suf" by blast
  next
    assume "\<exists>pre. s = pre @ suf"
    then obtain pre where "s = pre @ suf" by auto
    then have "rev s = rev suf @ rev pre" by simp
    then show "\<exists>t. rev s = rev suf @ t" by blast
  qed
  finally show ?thesis .
qed

section \<open>The validator\<close>

text \<open>
  C5. The verdict of \<^verbatim>\<open>file_validation\<close> is exactly the forbidden-substring predicate:
  it is the fail verdict (False) if and only if the path has the shape
  \<open>pre @ ''invalid'' @ suf\<close>, and the pass verdict (True) otherwise; the object and the
  world (the files and the log) come back unchanged.
\<close>

theorem file_validation_is_substring_predicate:
  "file_validation self w = (\<not> (\<exists>pre suf. file_path self = pre @ ''invalid'' @ suf), self, w)"
  by (simp add: file_validation_def str_contains_iff)

section \<open>The name \<^verbatim>\<open>null\<close>\<close>

text \<open>
  No assignment, import or definition of the module binds \<^verbatim>\<open>null\<close>, and it is no
  builtin: loading it raises, and so does each dict display that mentions it.
\<close>

lemma load_global_null: "load_global ''null'' = Inl (NameError ''null'')"
  by (simp add: load_global_def module_globals_def builtin_names_def)

lemma pass_envelope_raises: "pass_envelope = Inl (NameError ''null'')"
  by (simp add: pass_envelope_def dict_display_def load_global_null)

lemma fail_envelope_raises: "fail_envelope = Inl (NameError ''null'')"
  by (simp add: fail_envelope_def dict_display_def load_global_null)

section \<open>Storing the request body\<close>

lemma created_file:
  assumes "NamedTemporaryFile env suffix w = (Inr f, w1)"
  shows "name f = path_join (tmp_dir env) (''tmp'' @ tmp_rand env @ suffix)"
    and "files w (name f) = None"
    and "w1 = w\<lparr>files := (files w)(name f \<mapsto> [])\<rparr>"
  using assms by (auto simp: NamedTemporaryFile_def Let_def split: option.splits)

lemma written_file:
  assumes "write_and_close env f data w = (Inr p, w2)"
  shows "p = name f"
    and "files w (name f) = Some old \<Longrightarrow> w2 = w\<lparr>files := (files w)(name f \<mapsto> old @ data)\<rparr>"
    and "files w (name f) = None \<Longrightarrow> w2 = w"
  using assms by (auto simp: write_and_close_def tf_write_def tf_close_def split: option.splits)

lemma stored_file:
  assumes "NamedTemporaryFile env suffix w = (Inr f, w1)"
      and "write_and_close env f data w1 = (Inr p, w2)"
  shows "p = name f" and "files w (name f) = None"
    and "w2 = w\<lparr>files := (files w)(name f \<mapsto> data)\<rparr>"
proof -
  show "p = name f" using written_file(1)[OF assms(2)] .
  show "files w (name f) = None" using created_file(2)[OF assms(1)] .
  have w1: "w1 = w\<lparr>files := (files w)(name f \<mapsto> [])\<rparr>" using created_file(3)[OF assms(1)] .
  then have "files w1 (name f) = Some []" by simp
  from written_file(2)[OF assms(2) this] show "w2 = w\<lparr>files := (files w)(name f \<mapsto> data)\<rparr>"
    by (simp add: w1)
qed

lemma temp_name_endswith_txt:
  assumes "NamedTemporaryFile env ''.txt'' w = (Inr f, w1)"
  shows "endswith (name f) ''.txt''"
proof -
  have "name f = path_join (tmp_dir env) (''tmp'' @ tmp_rand env @ ''.txt'')"
    using created_file(1)[OF assms] .
  then have "\<exists>pre. name f = pre @ ''.txt''"
    by (auto simp: path_join_def)
  then show ?thesis by (simp add: endswith_iff)
qed

section \<open>The validation handler\<close>

lemma try_except_finally_removes:
  "files (snd (try_except_finally (r, Some p, w))) p = None"
  by (auto simp: try_except_finally_def finally_clause_def os_unlink_def except_clause_def
      logging_error_def split: sum.splits option.splits prod.splits)

text \<open>
  Once the body is stored, every run of the handler ends the same way: the \<^verbatim>\<open>try\<close>
  body raises (\<^verbatim>\<open>NameError\<close> from the pass display, or the validation exception), the
  \<^verbatim>\<open>except\<close> clause logs it and raises \<^verbatim>\<open>NameError\<close> from its own display, and
  the \<^verbatim>\<open>finally\<close> clause removes the file.
\<close>

lemma handler_after_store:
  assumes "NamedTemporaryFile env ''.txt'' w = (Inr f, w1)"
      and "write_and_close env f (body request) w1 = (Inr p, w2)"
  shows "validation_of_incoming_txt_file env request w =
           (Inl (NameError ''null''),
            logging_error (''Validation failed: '' @
              (if str_contains ''invalid'' (name f)
               then ''System.Exception column 0: MA (unknown column name)''
               else str_exc (NameError ''null''))) w)"
proof -
  note st = stored_file[OF assms]
  have tb: "try_body env f (body request) w1 =
      (if str_contains ''invalid'' (name f)
       then Inl (Exception ''System.Exception column 0: MA (unknown column name)'')
       else Inl (NameError ''null''), Some (name f), w2)"
    by (simp add: try_body_def assms(2) st(1) file_validation_def pass_envelope_raises)
  have idem: "(files w)(name f := None) = files w"
    using st(2) by (simp add: fun_upd_idem)
  have un: "os_unlink (name f) (logging_error m w2) = (Inr (), logging_error m w)" for m
    by (simp add: os_unlink_def st(3) logging_error_def idem)
  show ?thesis
    by (simp add: validation_of_incoming_txt_file_def assms(1) tb try_except_finally_def
        except_clause_def fail_envelope_raises finally_clause_def un)
qed

text \<open>
  C1. The claim: when the temporary path lacks \<^verbatim>\<open>invalid\<close>, the handler returns
  \<^verbatim>\<open>{Code: 0, Message: null, Warning: null}\<close>. The code at the body
  \<^verbatim>\<open>b"MA\tElement\n1\tV\n"\<close> stored as \<^verbatim>\<open>/tmp/tmpk3x9q_ab.txt\<close>: the verdict is a
  pass, the pass display raises \<^verbatim>\<open>NameError\<close> on \<^verbatim>\<open>null\<close>, the \<^verbatim>\<open>except\<close> clause
  logs it and raises \<^verbatim>\<open>NameError\<close> again; the handler returns nothing and the
  transport status is 500.
\<close>

theorem pass_path_raises_NameError:
  "\<not> str_contains ''invalid'' ''/tmp/tmpk3x9q_ab.txt'' \<and>
   validation_of_incoming_txt_file
     \<lparr>tmp_dir = ''/tmp'', tmp_rand = ''k3x9q_ab'', create_error = None,
      write_error = None, close_error = None\<rparr>
     \<lparr>body = [0x4D, 0x41, 0x09, 0x45, 0x6C, 0x65, 0x6D, 0x65, 0x6E, 0x74, 0x0A, 0x31, 0x09, 0x56, 0x0A]\<rparr>
     \<lparr>files = Map.empty, log = []\<rparr>
   = (Inl (NameError ''null''),
      \<lparr>files = Map.empty,
       log = [''Validation failed: name '' @ quoted ''null'' @ '' is not defined'']\<rparr>) \<and>
   transport_status (surfaced (fst (validation_of_incoming_txt_file
     \<lparr>tmp_dir = ''/tmp'', tmp_rand = ''k3x9q_ab'', create_error = None,
      write_error = None, close_error = None\<rparr>
     \<lparr>body = [0x4D, 0x41, 0x09, 0x45, 0x6C, 0x65, 0x6D, 0x65, 0x6E, 0x74, 0x0A, 0x31, 0x09, 0x56, 0x0A]\<rparr>
     \<lparr>files = Map.empty, log = []\<rparr>))) = 500"
  by (simp add: validation_of_incoming_txt_file_def NamedTemporaryFile_def path_join_def
      try_body_def write_and_close_def tf_write_def tf_close_def file_validation_def
      pass_envelope_raises fail_envelope_raises try_except_finally_def except_clause_def
      finally_clause_def os_unlink_def logging_error_def Let_def quoted_def surfaced_def)

text \<open>
  C2. The claim: when the temporary path contains \<^verbatim>\<open>invalid\<close>, the handler returns
  \<^verbatim>\<open>{Code: 500, Message: "System.Exception column 0: MA (unknown column name)",
  Warning: null}\<close> with a successful transport status. The code at the same body stored as
  \<^verbatim>\<open>/tmp/tmpxinvalid.txt\<close>: the verdict is a fail, the validation exception is caught
  and logged, the failure display raises \<^verbatim>\<open>NameError\<close> on \<^verbatim>\<open>null\<close>; the handler
  raises and the transport status is 500.
\<close>

theorem fail_path_raises_NameError:
  "str_contains ''invalid'' ''/tmp/tmpxinvalid.txt'' \<and>
   validation_of_incoming_txt_file
     \<lparr>tmp_dir = ''/tmp'', tmp_rand = ''xinvalid'', create_error = None,
      write_error = None, close_error = None\<rparr>
     \<lparr>body = [0x4D, 0x41, 0x09, 0x45, 0x6C, 0x65, 0x6D, 0x65, 0x6E, 0x74, 0x0A, 0x31, 0x09, 0x56, 0x0A]\<rparr>
     \<lparr>files = Map.empty, log = []\<rparr>
   = (Inl (NameError ''null''),
      \<lparr>files = Map.empty,
       log = [''Validation failed: System.Exception column 0: MA (unknown column name)'']\<rparr>) \<and>
   transport_status (surfaced (fst (validation_of_incoming_txt_file
     \<lparr>tmp_dir = ''/tmp'', tmp_rand = ''xinvalid'', create_error = None,
      write_error = None, close_error = None\<rparr>
     \<lparr>body = [0x4D, 0x41, 0x09, 0x45, 0x6C, 0x65, 0x6D, 0x65, 0x6E, 0x74, 0x0A, 0x31, 0x09, 0x56, 0x0A]\<rparr>
     \<lparr>files = Map.empty, log = []\<rparr>))) = 500"
  by (simp add: validation_of_incoming_txt_file_def NamedTemporaryFile_def path_join_def
      try_body_def write_and_close_def tf_write_def tf_close_def file_validation_def
      pass_envelope_raises fail_envelope_raises try_except_finally_def except_clause_def
      finally_clause_def os_unlink_def logging_error_def Let_def quoted_def surfaced_def)

text \<open>
  C3. When the temporary file was created and the body written and closed, the file is
  absent from the filesystem after the handler has run. The second half covers every exit
  of the \<^verbatim>\<open>try\<close> body at once: whatever it returns or raises, and in whatever world,
  \<^verbatim>\<open>try ... except ... finally\<close> with \<^verbatim>\<open>file_path\<close> bound leaves no file at that path.
\<close>

theorem temp_file_absent_after_request:
  assumes "NamedTemporaryFile env ''.txt'' w = (Inr f, w1)"
      and "write_and_close env f (body request) w1 = (Inr p, w2)"
  shows "files (snd (validation_of_incoming_txt_file env request w)) (name f) = None \<and>
         (\<forall>r w'. files (snd (try_except_finally (r, Some (name f), w'))) (name f) = None)"
proof
  have "files w (name f) = None" using stored_file(2)[OF assms] .
  then show "files (snd (validation_of_incoming_txt_file env request w)) (name f) = None"
    by (simp add: handler_after_store[OF assms] logging_error_def)
  show "\<forall>r w'. files (snd (try_except_finally (r, Some (name f), w'))) (name f) = None"
    by (simp add: try_except_finally_removes)
qed

theorem temp_file_absent_after_request_witness:
  "NamedTemporaryFile
     \<lparr>tmp_dir = ''/tmp'', tmp_rand = ''k3x9q_ab'', create_error = None,
      write_error = None, close_error = None\<rparr> ''.txt'' \<lparr>files = Map.empty, log = []\<rparr>
   = (Inr \<lparr>name = ''/tmp/tmpk3x9q_ab.txt''\<rparr>,
      \<lparr>files = [''/tmp/tmpk3x9q_ab.txt'' \<mapsto> []], log = []\<rparr>) \<and>
   write_and_close
     \<lparr>tmp_dir = ''/tmp'', tmp_rand = ''k3x9q_ab'', create_error = None,
      write_error = None, close_error = None\<rparr>
     \<lparr>name = ''/tmp/tmpk3x9q_ab.txt''\<rparr> [0x4D, 0x41, 0x09, 0x56, 0x0A]
     \<lparr>files = [''/tmp/tmpk3x9q_ab.txt'' \<mapsto> []], log = []\<rparr>
   = (Inr ''/tmp/tmpk3x9q_ab.txt'',
      \<lparr>files = [''/tmp/tmpk3x9q_ab.txt'' \<mapsto> [0x4D, 0x41, 0x09, 0x56, 0x0A]], log = []\<rparr>) \<and>
   files (snd (validation_of_incoming_txt_file
     \<lparr>tmp_dir = ''/tmp'', tmp_rand = ''k3x9q_ab'', create_error = None,
      write_error = None, close_error = None\<rparr>
     \<lparr>body = [0x4D, 0x41, 0x09, 0x56, 0x0A]\<rparr>
     \<lparr>files = Map.empty, log = []\<rparr>)) ''/tmp/tmpk3x9q_ab.txt'' = None"
proof -
  have h1: "NamedTemporaryFile
     \<lparr>tmp_dir = ''/tmp'', tmp_rand = ''k3x9q_ab'', create_error = None,
      write_error = None, close_error = None\<rparr> ''.txt'' \<lparr>files = Map.empty, log = []\<rparr>
   = (Inr \<lparr>name = ''/tmp/tmpk3x9q_ab.txt''\<rparr>,
      \<lparr>files = [''/tmp/tmpk3x9q_ab.txt'' \<mapsto> []], log = []\<rparr>)"
    by (simp add: NamedTemporaryFile_def path_join_def Let_def)
  have h2: "write_and_close
     \<lparr>tmp_dir = ''/tmp'', tmp_rand = ''k3x9q_ab'', create_error = None,
      write_error = None, close_error = None\<rparr>
     \<lparr>name = ''/tmp/tmpk3x9q_ab.txt''\<rparr> (body \<lparr>body = [0x4D, 0x41, 0x09, 0x56, 0x0A]\<rparr>)
     \<lparr>files = [''/tmp/tmpk3x9q_ab.txt'' \<mapsto> []], log = []\<rparr>
   = (Inr ''/tmp/tmpk3x9q_ab.txt'',
      \<lparr>files = [''/tmp/tmpk3x9q_ab.txt'' \<mapsto> [0x4D, 0x41, 0x09, 0x56, 0x0A]], log = []\<rparr>)"
    by (simp add: write_and_close_def tf_write_def tf_close_def)
  from temp_file_absent_after_request[OF h1 h2] h1 h2 show ?thesis by simp
qed

section \<open>The release step\<close>

text \<open>
  C4, the claim as stated fails. The release step is the \<^verbatim>\<open>os.unlink(file_path)\<close> of
  the \<^verbatim>\<open>finally\<close> clause, and nothing guards it. When the write fails (here with a full
  disk) \<^verbatim>\<open>file_path\<close> was never bound and the release raises
  \<^verbatim>\<open>UnboundLocalError\<close>, which is what the handler then raises; and a second release of
  a path the first one removed raises \<^verbatim>\<open>FileNotFoundError\<close>.
\<close>

theorem release_raises_counterexample:
  "fst (validation_of_incoming_txt_file
     \<lparr>tmp_dir = ''/tmp'', tmp_rand = ''k3x9q_ab'', create_error = None,
      write_error = Some (OtherException ''OSError'' ''[Errno 28] No space left on device''),
      close_error = None\<rparr>
     \<lparr>body = [0x4D, 0x41]\<rparr>
     \<lparr>files = Map.empty, log = []\<rparr>) = Inl (UnboundLocalError ''file_path'') \<and>
   fst (finally_clause None \<lparr>files = Map.empty, log = []\<rparr>) = Inl (UnboundLocalError ''file_path'') \<and>
   fst (finally_clause (Some ''/tmp/tmpk3x9q_ab.txt'')
         \<lparr>files = [''/tmp/tmpk3x9q_ab.txt'' \<mapsto> [0x4D, 0x41]], log = []\<rparr>) = Inr () \<and>
   fst (finally_clause (Some ''/tmp/tmpk3x9q_ab.txt'')
         (snd (finally_clause (Some ''/tmp/tmpk3x9q_ab.txt'')
            \<lparr>files = [''/tmp/tmpk3x9q_ab.txt'' \<mapsto> [0x4D, 0x41]], log = []\<rparr>)))
     = Inl (FileNotFoundError ''/tmp/tmpk3x9q_ab.txt'')"
  by (simp add: validation_of_incoming_txt_file_def NamedTemporaryFile_def path_join_def
      try_body_def write_and_close_def tf_write_def tf_close_def
      fail_envelope_raises try_except_finally_def except_clause_def
      finally_clause_def os_unlink_def logging_error_def Let_def)

text \<open>
  C4 as amended. With \<^verbatim>\<open>file_path\<close> bound to a path that is present, the release
  removes the file and does not raise; run again on the path it has removed, it raises
  \<^verbatim>\<open>FileNotFoundError\<close> and changes nothing.
\<close>

theorem release_removes_present_file:
  "files w p = Some stored \<Longrightarrow>
     finally_clause (Some p) w = (Inr (), w\<lparr>files := (files w)(p := None)\<rparr>) \<and>
     finally_clause (Some p) (w\<lparr>files := (files w)(p := None)\<rparr>) =
       (Inl (FileNotFoundError p), w\<lparr>files := (files w)(p := None)\<rparr>)"
  by (simp add: finally_clause_def os_unlink_def)

theorem release_removes_present_file_witness:
  "files \<lparr>files = [''/tmp/tmpk3x9q_ab.txt'' \<mapsto> [0x4D, 0x41]], log = []\<rparr> ''/tmp/tmpk3x9q_ab.txt''
     = Some [0x4D, 0x41] \<and>
   finally_clause (Some ''/tmp/tmpk3x9q_ab.txt'')
     \<lparr>files = [''/tmp/tmpk3x9q_ab.txt'' \<mapsto> [0x4D, 0x41]], log = []\<rparr>
     = (Inr (), \<lparr>files = Map.empty, log = []\<rparr>) \<and>
   finally_clause (Some ''/tmp/tmpk3x9q_ab.txt'') \<lparr>files = Map.empty, log = []\<rparr>
     = (Inl (FileNotFoundError ''/tmp/tmpk3x9q_ab.txt''), \<lparr>files = Map.empty, log = []\<rparr>)"
proof -
  have h: "files \<lparr>files = [''/tmp/tmpk3x9q_ab.txt'' \<mapsto> [0x4D, 0x41]], log = []\<rparr>
             ''/tmp/tmpk3x9q_ab.txt'' = Some [0x4D, 0x41]"
    by simp
  from release_removes_present_file[OF h] h show ?thesis by simp
qed

section \<open>The tabular reader\<close>

text \<open>
  C6. For a path that does not end in \<^verbatim>\<open>.txt\<close>, \<^verbatim>\<open>df\<close> never calls the reader: it
  logs the failure and raises \<^verbatim>\<open>HTTPException\<close> with status 500, which is the
  transport status, and returns no table. Whenever \<^verbatim>\<open>df\<close> returns a table, the path
  ends in \<^verbatim>\<open>.txt\<close> and the table is the one \<^verbatim>\<open>read_csv\<close> gave for that path with the
  tab as delimiter.
\<close>

theorem df_rejects_other_suffixes:
  "(\<not> (\<exists>pre. file_path self = pre @ ''.txt'') \<longrightarrow>
      df read_csv self w =
        (Inl (HTTPException 500 ''Error reading file: File is not a .txt file''),
         logging_error (''Error reading file '' @ file_path self @ '': File is not a .txt file'') w) \<and>
      transport_status (fst (df read_csv self w)) = 500) \<and>
   (\<forall>table. fst (df read_csv self w) = Inr table \<longrightarrow>
      (\<exists>pre. file_path self = pre @ ''.txt'') \<and>
      fst (read_csv (file_path self) (CHR 0x09) w) = Inr table)"
  by (auto simp: df_def df_try_def endswith_iff split: prod.splits sum.splits if_splits)

theorem df_rejects_other_suffixes_witness:
  "\<not> (\<exists>pre. ''spectrum.csv'' = pre @ ''.txt'') \<and>
   df (pd_read_csv (\<lambda>d b. Inr b)) \<lparr>file_path = ''spectrum.csv''\<rparr>
      \<lparr>files = [''spectrum.csv'' \<mapsto> [0x4D, 0x41]], log = []\<rparr>
     = (Inl (HTTPException 500 ''Error reading file: File is not a .txt file''),
        \<lparr>files = [''spectrum.csv'' \<mapsto> [0x4D, 0x41]],
         log = [''Error reading file spectrum.csv: File is not a .txt file'']\<rparr>) \<and>
   fst (df (pd_read_csv (\<lambda>d b. Inr b)) \<lparr>file_path = ''spectrum.txt''\<rparr>
      \<lparr>files = [''spectrum.txt'' \<mapsto> [0x4D, 0x41]], log = []\<rparr>) = Inr [0x4D, 0x41] \<and>
   (\<exists>pre. ''spectrum.txt'' = pre @ ''.txt'')"
proof -
  have n: "\<not> (\<exists>pre. ''spectrum.csv'' = pre @ ''.txt'')"
    unfolding endswith_iff[symmetric] by (simp add: endswith_def)
  have r: "fst (df (pd_read_csv (\<lambda>d b. Inr b)) \<lparr>file_path = ''spectrum.txt''\<rparr>
      \<lparr>files = [''spectrum.txt'' \<mapsto> [0x4D, 0x41]], log = []\<rparr>) = (Inr [0x4D, 0x41] :: failure + bytes)"
    by (simp add: df_def df_try_def endswith_def pd_read_csv_def)
  from df_rejects_other_suffixes[of "\<lparr>file_path = ''spectrum.csv''\<rparr>"
         "pd_read_csv (\<lambda>d b. Inr b)" "\<lparr>files = [''spectrum.csv'' \<mapsto> [0x4D, 0x41]], log = []\<rparr>"]
       df_rejects_other_suffixes[of "\<lparr>file_path = ''spectrum.txt''\<rparr>"
         "pd_read_csv (\<lambda>d b. Inr b)" "\<lparr>files = [''spectrum.txt'' \<mapsto> [0x4D, 0x41]], log = []\<rparr>"]
       n r
  show ?thesis by (simp add: logging_error_def)
qed

text \<open>
  C9, the claim as stated fails. The detail of the surfaced error is not one fixed string
  and it carries the internal exception's text: a reader failing on \<^verbatim>\<open>data.txt\<close> with
  pandas' \<^verbatim>\<open>EmptyDataError\<close> and the suffix check failing on \<^verbatim>\<open>data.csv\<close> give two
  different details, each ending with the text of the exception caught.
\<close>

theorem read_failure_detail_counterexample:
  "fst (df (\<lambda>p d w. (Inl (OtherException ''EmptyDataError'' ''No columns to parse from file''), w))
         \<lparr>file_path = ''data.txt''\<rparr> \<lparr>files = Map.empty, log = []\<rparr>)
     = (Inl (HTTPException 500 ''Error reading file: No columns to parse from file'') :: failure + bytes) \<and>
   fst (df (\<lambda>p d w. (Inl (OtherException ''EmptyDataError'' ''No columns to parse from file''), w))
         \<lparr>file_path = ''data.csv''\<rparr> \<lparr>files = Map.empty, log = []\<rparr>)
     = (Inl (HTTPException 500 ''Error reading file: File is not a .txt file'') :: failure + bytes)"
  by (simp add: df_def df_try_def endswith_def)

text \<open>
  C9 as amended. For every failure of the read path that \<^verbatim>\<open>except Exception\<close> catches,
  \<^verbatim>\<open>df\<close> raises \<^verbatim>\<open>HTTPException\<close> with status 500 whose detail is the fixed prefix
  \<^verbatim>\<open>Error reading file: \<close> followed by the text of the internal exception, and appends
  to the log one entry that adds the file path to the same text.
\<close>

theorem read_failure_detail_has_exception_text:
  "fst (df_try read_csv self w) = Inl e \<Longrightarrow> is_Exception e \<Longrightarrow>
     fst (df read_csv self w) = Inl (HTTPException 500 (''Error reading file: '' @ str_exc e)) \<and>
     log (snd (df read_csv self w)) =
       log (snd (df_try read_csv self w)) @
         [''Error reading file '' @ file_path self @ '': '' @ str_exc e]"
  by (auto simp: df_def logging_error_def split: prod.splits sum.splits)

theorem read_failure_detail_has_exception_text_witness:
  "fst (df_try (pd_read_csv (\<lambda>d b. Inr b)) \<lparr>file_path = ''gone.txt''\<rparr>
          \<lparr>files = Map.empty, log = []\<rparr>)
     = (Inl (FileNotFoundError ''gone.txt'') :: pyexc + bytes) \<and>
   is_Exception (FileNotFoundError ''gone.txt'') \<and>
   fst (df (pd_read_csv (\<lambda>d b. Inr b)) \<lparr>file_path = ''gone.txt''\<rparr>
          \<lparr>files = Map.empty, log = []\<rparr>)
     = (Inl (HTTPException 500
          (''Error reading file: [Errno 2] No such file or directory: '' @ quoted ''gone.txt''))
        :: failure + bytes) \<and>
   log (snd (df (pd_read_csv (\<lambda>d b. (Inr b :: pyexc + bytes))) \<lparr>file_path = ''gone.txt''\<rparr>
          \<lparr>files = Map.empty, log = []\<rparr>))
     = [''Error reading file gone.txt: [Errno 2] No such file or directory: '' @ quoted ''gone.txt'']"
proof -
  have h1: "fst (df_try (pd_read_csv (\<lambda>d b. Inr b)) \<lparr>file_path = ''gone.txt''\<rparr>
          \<lparr>files = Map.empty, log = []\<rparr>)
     = (Inl (FileNotFoundError ''gone.txt'') :: pyexc + bytes)"
    by (simp add: df_try_def endswith_def pd_read_csv_def)
  have h2: "is_Exception (FileNotFoundError ''gone.txt'')" by simp
  have l: "log (snd (df_try (pd_read_csv (\<lambda>d b. (Inr b :: pyexc + bytes))) \<lparr>file_path = ''gone.txt''\<rparr>
          \<lparr>files = Map.empty, log = []\<rparr>)) = []"
    by (simp add: df_try_def endswith_def pd_read_csv_def)
  from read_failure_detail_has_exception_text[OF h1 h2] h1 h2 l show ?thesis by simp
qed

text \<open>
  C10. After the handler's store step (create, write, close) of a byte buffer \<open>B\<close>, the
  path holds exactly \<open>B\<close>, and the read step of the tabular reader on that path hands
  exactly \<open>B\<close>, with the tab as delimiter, to the parser: whatever the parser is, the
  \<^verbatim>\<open>try\<close> body of \<^verbatim>\<open>df\<close> gives what the parser gives on \<open>B\<close>, and \<^verbatim>\<open>df\<close> returns
  every table the parser returns.
\<close>

theorem stored_bytes_read_back:
  assumes "NamedTemporaryFile env ''.txt'' w = (Inr f, w1)"
      and "write_and_close env f B w1 = (Inr p, w2)"
  shows "files w2 p = Some B \<and>
         df_try (pd_read_csv parse) \<lparr>file_path = p\<rparr> w2 = (parse (CHR 0x09) B, w2) \<and>
         (\<forall>table. parse (CHR 0x09) B = Inr table \<longrightarrow>
            df (pd_read_csv parse) \<lparr>file_path = p\<rparr> w2 = (Inr table, w2))"
proof -
  note st = stored_file[OF assms]
  have f: "files w2 p = Some B" by (simp add: st(1) st(3))
  have "endswith p ''.txt''" using temp_name_endswith_txt[OF assms(1)] by (simp add: st(1))
  then have t: "df_try (pd_read_csv parse) \<lparr>file_path = p\<rparr> w2 = (parse (CHR 0x09) B, w2)"
    by (simp add: df_try_def pd_read_csv_def f)
  then have "\<forall>table. parse (CHR 0x09) B = Inr table \<longrightarrow>
            df (pd_read_csv parse) \<lparr>file_path = p\<rparr> w2 = (Inr table, w2)"
    by (simp add: df_def)
  with f t show ?thesis by simp
qed

theorem stored_bytes_read_back_witness:
  "NamedTemporaryFile
     \<lparr>tmp_dir = ''/tmp'', tmp_rand = ''k3x9q_ab'', create_error = None,
      write_error = None, close_error = None\<rparr> ''.txt'' \<lparr>files = Map.empty, log = []\<rparr>
   = (Inr \<lparr>name = ''/tmp/tmpk3x9q_ab.txt''\<rparr>,
      \<lparr>files = [''/tmp/tmpk3x9q_ab.txt'' \<mapsto> []], log = []\<rparr>) \<and>
   write_and_close
     \<lparr>tmp_dir = ''/tmp'', tmp_rand = ''k3x9q_ab'', create_error = None,
      write_error = None, close_error = None\<rparr>
     \<lparr>name = ''/tmp/tmpk3x9q_ab.txt''\<rparr> [0xFF, 0x00, 0x0D, 0x0A, 0x09, 0x80]
     \<lparr>files = [''/tmp/tmpk3x9q_ab.txt'' \<mapsto> []], log = []\<rparr>
   = (Inr ''/tmp/tmpk3x9q_ab.txt'',
      \<lparr>files = [''/tmp/tmpk3x9q_ab.txt'' \<mapsto> [0xFF, 0x00, 0x0D, 0x0A, 0x09, 0x80]], log = []\<rparr>) \<and>
   df (pd_read_csv (\<lambda>d b. Inr b)) \<lparr>file_path = ''/tmp/tmpk3x9q_ab.txt''\<rparr>
     \<lparr>files = [''/tmp/tmpk3x9q_ab.txt'' \<mapsto> [0xFF, 0x00, 0x0D, 0x0A, 0x09, 0x80]], log = []\<rparr>
   = (Inr [0xFF, 0x00, 0x0D, 0x0A, 0x09, 0x80],
      \<lparr>files = [''/tmp/tmpk3x9q_ab.txt'' \<mapsto> [0xFF, 0x00, 0x0D, 0x0A, 0x09, 0x80]], log = []\<rparr>)"
proof -
  have h1: "NamedTemporaryFile
     \<lparr>tmp_dir = ''/tmp'', tmp_rand = ''k3x9q_ab'', create_error = None,
      write_error = None, close_error = None\<rparr> ''.txt'' \<lparr>files = Map.empty, log = []\<rparr>
   = (Inr \<lparr>name = ''/tmp/tmpk3x9q_ab.txt''\<rparr>,
      \<lparr>files = [''/tmp/tmpk3x9q_ab.txt'' \<mapsto> []], log = []\<rparr>)"
    by (simp add: NamedTemporaryFile_def path_join_def Let_def)
  have h2: "write_and_close
     \<lparr>tmp_dir = ''/tmp'', tmp_rand = ''k3x9q_ab'', create_error = None,
      write_error = None, close_error = None\<rparr>
     \<lparr>name = ''/tmp/tmpk3x9q_ab.txt''\<rparr> [0xFF, 0x00, 0x0D, 0x0A, 0x09, 0x80]
     \<lparr>files = [''/tmp/tmpk3x9q_ab.txt'' \<mapsto> []], log = []\<rparr>
   = (Inr ''/tmp/tmpk3x9q_ab.txt'',
      \<lparr>files = [''/tmp/tmpk3x9q_ab.txt'' \<mapsto> [0xFF, 0x00, 0x0D, 0x0A, 0x09, 0x80]], log = []\<rparr>)"
    by (simp add: write_and_close_def tf_write_def tf_close_def)
  from stored_bytes_read_back[OF h1 h2, of "\<lambda>d b. Inr b"] h1 h2 show ?thesis by simp
qed

section \<open>The fixed payloads and the verdict's inputs\<close>

text \<open>
  C7. The composition endpoint returns \<^verbatim>\<open>template_data\<close> and the table endpoint its
  one-row measurement table under the key \<^verbatim>\<open>data\<close>, whatever the request: two requests
  with any bodies (the empty one included) get the same payload from each endpoint.
\<close>

theorem fixed_payload_endpoints:
  "post_databasevaluesbody r1 = Inr template_data \<and>
   post_databasevaluesbody r1 = post_databasevaluesbody r2 \<and>
   process_txt_data_table r1 = process_txt_data_table r2 \<and>
   (\<exists>row. process_txt_data_table r1 =
            Inr (PDict [(''data'', PDict [(''DataTable'', PList [PDict row])])]) \<and>
      map fst row = [''Spectrum'', ''In stats.'', ''X (mm)'', ''Y (mm)'', ''C'', ''O'', ''Si'', ''V'',
                     ''Mn'', ''Co'', ''Ni'', ''Ho''])"
  by (simp add: post_databasevaluesbody_def process_txt_data_def load_global_def module_globals_def
      process_txt_data_table_def)

text \<open>
  C8. The verdict of \<^verbatim>\<open>file_validation\<close> is the same in any two worlds, so whatever
  bytes the file holds; and two requests with different bodies, handled in the same
  environment (the same temporary path, the same I/O failures) and the same world, end
  with the same outcome and the same log. The handler has no parser among its inputs: the
  body is written and never read.
\<close>

theorem verdict_independent_of_body:
  "fst (file_validation self w1) = fst (file_validation self w2) \<and>
   fst (validation_of_incoming_txt_file env \<lparr>body = b1\<rparr> w) =
   fst (validation_of_incoming_txt_file env \<lparr>body = b2\<rparr> w) \<and>
   log (snd (validation_of_incoming_txt_file env \<lparr>body = b1\<rparr> w)) =
   log (snd (validation_of_incoming_txt_file env \<lparr>body = b2\<rparr> w))"
  by (simp add: file_validation_def validation_of_incoming_txt_file_def NamedTemporaryFile_def
      try_body_def write_and_close_def tf_write_def tf_close_def
      pass_envelope_raises fail_envelope_raises try_except_finally_def except_clause_def
      finally_clause_def os_unlink_def logging_error_def Let_def split: option.splits)

end
